theory Spec2Isabelle
  imports Main "HOL-Library.Sublist" "HOL-Library.List_Lexorder"
begin

section \<open>Hero records and the filter engine (dota2\_hero.py, lines 12--28 and 148--174)\<close>

text \<open>
  The class \<open>Hero\<close> is a plain record of eight fields. The primary attribute is
  \<open>None\<close> when \<open>get_hero_info\<close> found no recognised column, so it is an option;
  \<open>roles\<close> is the list of role tags of the feed.
\<close>

record Hero =
  name :: string
  icon :: string
  attr :: "string option"
  faction :: string
  bio :: string
  roles :: "string list"
  attack :: string
  key :: string

text \<open>
  The four nested predicates of \<open>find_heroes\<close>. A criterion that was not supplied
  is the empty string for the name and \<open>None\<close> for the three others, as in the
  signature \<open>find_heroes(hlist, name="", attribute=None, role=None, attack=None)\<close>.
\<close>

definition match_name :: "string \<Rightarrow> Hero \<Rightarrow> bool" where
  "match_name nm test = (nm = [] \<or> name test = nm \<or> key test = nm)"

definition match_attr :: "string option \<Rightarrow> Hero \<Rightarrow> bool" where
  "match_attr attribute test = (attribute = None \<or> attr test = attribute)"

definition match_role :: "string list option \<Rightarrow> Hero \<Rightarrow> bool" where
  "match_role role test =
     (case role of None \<Rightarrow> True | Some r \<Rightarrow> set r \<subseteq> set (roles test))"

definition match_attack :: "string option \<Rightarrow> Hero \<Rightarrow> bool" where
  "match_attack atk test = (atk = None \<or> Some (attack test) = atk)"

definition find_heroes ::
  "Hero list \<Rightarrow> string \<Rightarrow> string option \<Rightarrow> string list option \<Rightarrow> string option \<Rightarrow> Hero list" where
  "find_heroes hlist nm attribute role atk =
     filter (match_name nm)
       (filter (match_attr attribute)
         (filter (match_attack atk)
           (filter (match_role role) hlist)))"

text \<open>\<open>find_first_hero\<close>: \<open>None\<close> when the list of matches is empty, its head otherwise.\<close>

definition find_first_hero ::
  "Hero list \<Rightarrow> string \<Rightarrow> string option \<Rightarrow> string list option \<Rightarrow> string option \<Rightarrow> Hero option" where
  "find_first_hero hlist nm attribute role atk =
     (case find_heroes hlist nm attribute role atk of [] \<Rightarrow> None | h # _ \<Rightarrow> Some h)"

section \<open>Python errors\<close>

text \<open>
  Every exception the modelled functions can raise is a value; an operation returns
  \<open>Inl\<close> of the error or \<open>Inr\<close> of its result. \<open>IndexError\<close> and \<open>KeyError\<close> are
  Python's two subclasses of \<open>LookupError\<close>. \<open>RequestException\<close> stands for any
  failure of \<open>requests.get\<close>.
\<close>

datatype py_error = IndexError | KeyError | TypeError | AttributeError | ValueError | IOError
  | RequestException

definition is_LookupError :: "py_error \<Rightarrow> bool" where
  "is_LookupError e = (e = IndexError \<or> e = KeyError)"

section \<open>Parsed documents (the BeautifulSoup tree the code navigates)\<close>

text \<open>
  A parsed page is a tree of tags, strings and comments. A tag carries its name, its
  single-valued attributes (\<open>id\<close>, \<open>src\<close>, ...) as strings and its \<open>class\<close>
  attribute as the list of class tokens the HTML parsers of bs4 produce (\<open>None\<close> when the
  tag has no \<open>class\<close>). The root is the \<open>BeautifulSoup\<close> object itself, a tag without
  parent. Python's object references into the tree are paths from the root: the list of
  child indices leading to the node.
\<close>

datatype node =
    Tag (tag_name: string) (tag_attrs: "(string \<times> string) list") (tag_class: "string list option")
        (contents: "node list")
  | NavigableString string
  | Comment string

type_synonym path = "nat list"

text \<open>\<open>tag.descendants\<close>: every node below a tag in document order, with its path.\<close>

fun descendants :: "node \<Rightarrow> (path \<times> node) list"
  and descendants_from :: "nat \<Rightarrow> node list \<Rightarrow> (path \<times> node) list" where
  "descendants (Tag nm a cl cs) = descendants_from 0 cs"
| "descendants (NavigableString s) = []"
| "descendants (Comment s) = []"
| "descendants_from i [] = []"
| "descendants_from i (c # cs) =
     ([i], c) # map (\<lambda>(p, d). (i # p, d)) (descendants c) @ descendants_from (Suc i) cs"

fun node_at :: "node \<Rightarrow> path \<Rightarrow> node option" where
  "node_at n [] = Some n"
| "node_at (Tag nm a cl cs) (i # p) = (if i < length cs then node_at (cs ! i) p else None)"
| "node_at (NavigableString s) (i # p) = None"
| "node_at (Comment s) (i # p) = None"

text \<open>
  \<open>page.find_all(f)\<close> keeps the descendants on which \<open>f\<close> holds, in document order;
  \<open>page.find(...)\<close> is its first element or \<open>None\<close>.
\<close>

definition find_all :: "(node \<Rightarrow> bool) \<Rightarrow> node \<Rightarrow> (path \<times> node) list" where
  "find_all P page = filter (\<lambda>(p, n). P n) (descendants page)"

definition bs_find :: "(node \<Rightarrow> bool) \<Rightarrow> node \<Rightarrow> (path \<times> node) option" where
  "bs_find P page = (case find_all P page of [] \<Rightarrow> None | x # _ \<Rightarrow> Some x)"

text \<open>\<open>tag.img\<close>, \<open>page.head\<close>: the first descendant tag of that name.\<close>

fun named :: "string \<Rightarrow> node \<Rightarrow> bool" where
  "named nm (Tag n a cl cs) = (n = nm)"
| "named nm (NavigableString s) = False"
| "named nm (Comment s) = False"

text \<open>
  \<open>page.find("div", cls)\<close> with a list of class tokens: a \<open>div\<close> one of whose class
  tokens is in the list.
\<close>

fun div_with_class :: "string list \<Rightarrow> node \<Rightarrow> bool" where
  "div_with_class cls (Tag n a cl cs) =
     (n = ''div'' \<and> (case cl of None \<Rightarrow> False | Some ds \<Rightarrow> \<exists>c \<in> set ds. c \<in> set cls))"
| "div_with_class cls (NavigableString s) = False"
| "div_with_class cls (Comment s) = False"

text \<open>\<open>tag[key]\<close> and \<open>tag["class"]\<close>; \<open>None\<close> is Python's \<open>KeyError\<close>.\<close>

fun get_attr :: "node \<Rightarrow> string \<Rightarrow> string option" where
  "get_attr (Tag n a cl cs) k = map_of a k"
| "get_attr (NavigableString s) k = None"
| "get_attr (Comment s) k = None"

fun class_of :: "node \<Rightarrow> string list option" where
  "class_of (Tag n a cl cs) = cl"
| "class_of (NavigableString s) = None"
| "class_of (Comment s) = None"

text \<open>Python's \<open>x in s\<close> on strings: \<open>x\<close> occurs in \<open>s\<close> as a contiguous piece.\<close>

fun py_in_str :: "string \<Rightarrow> string \<Rightarrow> bool" where
  "py_in_str x [] = (x = [])"
| "py_in_str x (c # s) = (prefix x (c # s) \<or> py_in_str x s)"

text \<open>The nested function \<open>matches_hero\<close> of \<open>get_hero_info\<close>.\<close>

fun matches_hero :: "string \<Rightarrow> node \<Rightarrow> bool" where
  "matches_hero heroName (Tag n a cl cs) =
     (n = ''a'' \<and> (case map_of a ''id'' of None \<Rightarrow> False | Some i \<Rightarrow> py_in_str heroName i))"
| "matches_hero heroName (NavigableString s) = False"
| "matches_hero heroName (Comment s) = False"

text \<open>
  \<open>page.find(text=f)\<close> where \<open>f\<close> accepts comments only: the first comment, in
  document order, whose text satisfies the test.
\<close>

fun first_comment :: "(string \<Rightarrow> bool) \<Rightarrow> node \<Rightarrow> string option"
  and first_comment_in :: "(string \<Rightarrow> bool) \<Rightarrow> node list \<Rightarrow> string option" where
  "first_comment P (Tag n a cl cs) = first_comment_in P cs"
| "first_comment P (NavigableString s) = None"
| "first_comment P (Comment s) = (if P s then Some s else None)"
| "first_comment_in P [] = None"
| "first_comment_in P (c # cs) =
     (case first_comment P c of Some s \<Rightarrow> Some s | None \<Rightarrow> first_comment_in P cs)"

text \<open>The children of a node; strings and comments have none.\<close>

fun children :: "node \<Rightarrow> node list" where
  "children (Tag n a cl cs) = cs"
| "children (NavigableString s) = []"
| "children (Comment s) = []"

text \<open>
  \<open>tag.append(soup)\<close> on the tag at a path, where \<open>soup\<close> is a \<open>BeautifulSoup\<close>
  object: bs4 moves the children of \<open>soup\<close>, in their order, to the end of the tag's
  children. \<open>new\<close> is that list of children.
\<close>

fun append_at :: "path \<Rightarrow> node list \<Rightarrow> node \<Rightarrow> node" where
  "append_at [] new (Tag n a cl cs) = Tag n a cl (cs @ new)"
| "append_at (i # p) new (Tag n a cl cs) = Tag n a cl (cs[i := append_at p new (cs ! i)])"
| "append_at p new (NavigableString s) = NavigableString s"
| "append_at p new (Comment s) = Comment s"

text \<open>
  \<open>BS_page.head.append(soup)\<close>: the first \<open>head\<close> tag receives the children of
  \<open>soup\<close>. A page without \<open>head\<close> makes \<open>BS_page.head\<close> \<open>None\<close> (here
  \<open>None\<close>, an \<open>AttributeError\<close> in the caller).
\<close>

definition head_append :: "node \<Rightarrow> node list \<Rightarrow> node option" where
  "head_append page new =
     (case bs_find (named ''head'') page of
        None \<Rightarrow> None
      | Some (p, _) \<Rightarrow> Some (append_at p new page))"

text \<open>Python's \<open>s.split(sep)\<close> for a one-character separator.\<close>

fun split_on :: "char \<Rightarrow> string \<Rightarrow> string list" where
  "split_on sep [] = [[]]"
| "split_on sep (x # xs) =
     (if x = sep then [] # split_on sep xs
      else (case split_on sep xs of [] \<Rightarrow> [[x]] | p # ps \<Rightarrow> (x # p) # ps))"

text \<open>The number of comments of a document that start with \<open>LANGUAGE=\<close>.\<close>

definition is_marker :: "string \<Rightarrow> bool" where
  "is_marker t = (take 9 t = ''LANGUAGE='')"

fun count_markers :: "node \<Rightarrow> nat" where
  "count_markers (Tag n a cl cs) = sum_list (map count_markers cs)"
| "count_markers (NavigableString s) = 0"
| "count_markers (Comment s) = (if is_marker s then 1 else 0)"

section \<open>The cache and its collaborators (lines 6--10, 60--94)\<close>

text \<open>
  The feed is the parsed JSON object: hero key to entry, in the order of the object's
  keys (a dictionary: the keys are distinct). An entry holds the four fields
  \<open>get_all_heroes\<close> reads.
\<close>

datatype feed_entry = FeedEntry (e_name: string) (e_bio: string) (e_roles_l: "string list")
  (e_atk_l: string)

type_synonym feed = "(string \<times> feed_entry) list"

text \<open>
  What the code calls outside the repository is a parameter of the model: the network
  (\<open>requests.get(url).text\<close>, \<open>requests.get(url).json()\<close>, either may raise), the
  HTML parser and printer, the JSON printer and parser (\<open>None\<close>: \<open>json.loads\<close> raises
  \<open>ValueError\<close>), the empty text a file opened for writing holds, and which paths can
  be opened for writing. Text, as served and as stored, is the type \<open>'t\<close>;
  \<open>literal\<close> is the text of a string the program itself builds. \<open>write_error p t\<close>
  is the exception \<open>f.write(t)\<close> raises on the file at \<open>p\<close>, if it raises (the file
  then keeps what it held). When one file is opened twice and written through both
  handles, \<open>shared_file a b\<close> is what it holds after \<open>a\<close> went through the first
  handle and \<open>b\<close> through the second.
\<close>

record 't env =
  http_text :: "string \<Rightarrow> py_error + 't"
  http_json :: "string \<Rightarrow> py_error + feed"
  BeautifulSoup :: "'t \<Rightarrow> node"
  prettify :: "node \<Rightarrow> 't"
  json_dumps :: "feed \<Rightarrow> 't"
  json_loads :: "'t \<Rightarrow> feed option"
  empty_text :: "'t"
  writable :: "string \<Rightarrow> bool"
  literal :: "string \<Rightarrow> 't"
  write_error :: "string \<Rightarrow> 't \<Rightarrow> py_error option"
  shared_file :: "'t \<Rightarrow> 't \<Rightarrow> 't"

text \<open>
  The state: the three module globals, the files on disk (\<open>None\<close>: the file cannot be
  opened for reading) and the URLs requested so far, oldest first.
\<close>

record 't world =
  cached_json :: "feed option"
  cached_bs_page :: "node option"
  cached_language :: string
  files :: "string \<Rightarrow> 't option"
  requested :: "string list"

definition page_url :: string where
  "page_url = ''http://www.dota2.com/heroes/''"

definition json_url :: string where
  "json_url = ''http://www.dota2.com/jsfeed/heropickerdata''"

definition get_web_page ::
  "'t env \<Rightarrow> string \<Rightarrow> string \<Rightarrow> 't world \<Rightarrow> (py_error + node) \<times> 't world" where
  "get_web_page E url lang w =
     (if (lang \<noteq> '''' \<and> cached_language w \<noteq> lang) \<or> cached_bs_page w = None then
        (let w1 = w\<lparr>requested := requested w @ [url @ ''?l='' @ lang]\<rparr> in
         case http_text E (url @ ''?l='' @ lang) of
           Inl e \<Rightarrow> (Inl e, w1)
         | Inr raw \<Rightarrow> (Inr (BeautifulSoup E raw),
                      w1\<lparr>cached_bs_page := Some (BeautifulSoup E raw)\<rparr>))
      else (Inr (the (cached_bs_page w)), w))"

definition get_json_list ::
  "'t env \<Rightarrow> string \<Rightarrow> string \<Rightarrow> 't world \<Rightarrow> (py_error + feed) \<times> 't world" where
  "get_json_list E url lang w =
     (if (lang \<noteq> '''' \<and> cached_language w \<noteq> lang) \<or> cached_json w = None then
        (let w1 = w\<lparr>requested := requested w @ [url @ ''?l='' @ lang]\<rparr> in
         case http_json E (url @ ''?l='' @ lang) of
           Inl e \<Rightarrow> (Inl e, w1)
         | Inr j \<Rightarrow> (Inr j, w1\<lparr>cached_json := Some j\<rparr>))
      else (Inr (the (cached_json w)), w))"

definition set_language :: "'t env \<Rightarrow> string \<Rightarrow> 't world \<Rightarrow> (py_error + unit) \<times> 't world" where
  "set_language E lang w =
     (if cached_language w \<noteq> lang then
        (case get_web_page E page_url lang (w\<lparr>cached_language := lang\<rparr>) of
           (Inl e, w1) \<Rightarrow> (Inl e, w1)
         | (Inr page, w1) \<Rightarrow>
             (case get_json_list E json_url lang w1 of
                (Inl e, w2) \<Rightarrow> (Inl e, w2)
              | (Inr j, w2) \<Rightarrow> (Inr (), w2)))
      else (Inr (), w))"

section \<open>The merger (lines 96--146)\<close>

definition hero_attribute :: "string list \<Rightarrow> string option" where
  "hero_attribute cls =
     (if ''heroColLeft'' \<in> set cls then Some ''Strength''
      else if ''heroColMiddle'' \<in> set cls then Some ''Agility''
      else if ''heroColRight'' \<in> set cls then Some ''Intelligence''
      else None)"

text \<open>
  \<open>hero_tag.parent.parent\<close> for the tag at path \<open>p\<close>: the node two steps up. When the
  tag is a child of the root, its parent is the root and the root's parent is \<open>None\<close>.
\<close>

definition parent_parent :: "node \<Rightarrow> path \<Rightarrow> node option" where
  "parent_parent page p =
     (if butlast p = [] then None else node_at page (butlast (butlast p)))"

text \<open>
  The body of \<open>get_hero_info\<close> after the page is at hand. The failures, in the order
  the code meets them: no matching tag (\<open>[0]\<close> of an empty list), no \<open>img\<close> below it
  (\<open>None["src"]\<close>), no \<open>src\<close>, no grandparent (\<open>None["class"]\<close>), no \<open>class\<close>. The
  final comparison \<open>==\<close> of bs4 tags is by name, attributes and contents.
\<close>

definition hero_info :: "node \<Rightarrow> string \<Rightarrow> py_error + (string \<times> string option \<times> string)" where
  "hero_info page heroName =
     (case find_all (matches_hero heroName) page of
        [] \<Rightarrow> Inl IndexError
      | (p, hero_tag) # _ \<Rightarrow>
          (case bs_find (named ''img'') hero_tag of
             None \<Rightarrow> Inl TypeError
           | Some (_, img) \<Rightarrow>
               (case get_attr img ''src'' of
                  None \<Rightarrow> Inl KeyError
                | Some img_src \<Rightarrow>
                    (case parent_parent page p of
                       None \<Rightarrow> Inl TypeError
                     | Some section \<Rightarrow>
                         (case class_of section of
                            None \<Rightarrow> Inl KeyError
                          | Some cls \<Rightarrow>
                              Inr (img_src, hero_attribute cls,
                                   if (case bs_find (div_with_class cls) page of
                                         None \<Rightarrow> False
                                       | Some (_, first_div) \<Rightarrow> section = first_div)
                                   then ''Radiant'' else ''Dire''))))))"

definition get_hero_info ::
  "'t env \<Rightarrow> string \<Rightarrow> 't world \<Rightarrow> (py_error + (string \<times> string option \<times> string)) \<times> 't world" where
  "get_hero_info E heroName w =
     (case get_web_page E page_url '''' w of
        (Inl e, w1) \<Rightarrow> (Inl e, w1)
      | (Inr page, w1) \<Rightarrow> (hero_info page heroName, w1))"

text \<open>
  The generator \<open>get_all_heroes\<close>, run to its end: the records yielded, in order, and
  the exception that ended the iteration, if one did.
\<close>

fun heroes_of ::
  "'t env \<Rightarrow> feed \<Rightarrow> 't world \<Rightarrow> (Hero list \<times> py_error option) \<times> 't world" where
  "heroes_of E [] w = (([], None), w)"
| "heroes_of E ((k, H) # rest) w =
     (case get_hero_info E k w of
        (Inl e, w1) \<Rightarrow> (([], Some e), w1)
      | (Inr (icn, attribute, fac), w1) \<Rightarrow>
          (case heroes_of E rest w1 of
             ((hs, r), w2) \<Rightarrow>
               ((\<lparr>name = e_name H, icon = icn, attr = attribute, faction = fac,
                   bio = e_bio H, roles = e_roles_l H, attack = e_atk_l H, key = k\<rparr> # hs, r), w2)))"

definition get_all_heroes :: "'t env \<Rightarrow> 't world \<Rightarrow> (Hero list \<times> py_error option) \<times> 't world" where
  "get_all_heroes E w =
     (case get_json_list E json_url '''' w of
        (Inl e, w1) \<Rightarrow> (([], Some e), w1)
      | (Inr jsonObj, w1) \<Rightarrow> heroes_of E jsonObj w1)"

section \<open>The disk snapshot (lines 176--211)\<close>

text \<open>
  \<open>BeautifulSoup("<!--LANGUAGE=" + _cached_language + "-->")\<close>: what the parser makes
  of the marker markup, as the children of the parsed object. For a tag that holds no
  markup of its own this is the one comment \<open>LANGUAGE=tag\<close>.
\<close>

definition language_marker :: "'t env \<Rightarrow> string \<Rightarrow> node list" where
  "language_marker E tag =
     children (BeautifulSoup E (literal E (''<!--LANGUAGE='' @ tag @ ''-->'')))"

text \<open>
  \<open>write_disk_cache\<close> opens both files for writing (which empties them) before it
  asks for the feed and the page. The page it marks is the cached object itself, so the
  marker is added to the cache as well as to the file. The two writes come after the
  append; either may raise.
\<close>

definition write_disk_cache ::
  "'t env \<Rightarrow> string \<Rightarrow> string \<Rightarrow> 't world \<Rightarrow> (py_error + unit) \<times> 't world" where
  "write_disk_cache E jspath webpath w =
     (if \<not> writable E jspath then (Inl IOError, w)
      else if \<not> writable E webpath
        then (Inl IOError, w\<lparr>files := (files w)(jspath \<mapsto> empty_text E)\<rparr>)
      else
        (case get_json_list E json_url ''''
                (w\<lparr>files := (files w)(jspath \<mapsto> empty_text E, webpath \<mapsto> empty_text E)\<rparr>) of
           (Inl e, w1) \<Rightarrow> (Inl e, w1)
         | (Inr JSON, w1) \<Rightarrow>
             (case get_web_page E page_url '''' w1 of
                (Inl e, w2) \<Rightarrow> (Inl e, w2)
              | (Inr BS_page, w2) \<Rightarrow>
                  (case head_append BS_page (language_marker E (cached_language w2)) of
                     None \<Rightarrow> (Inl AttributeError, w2)
                   | Some marked \<Rightarrow>
                       (case write_error E jspath (json_dumps E JSON) of
                          Some e \<Rightarrow> (Inl e, w2\<lparr>cached_bs_page := Some marked\<rparr>)
                        | None \<Rightarrow>
                            (case write_error E webpath (prettify E marked) of
                               Some e \<Rightarrow>
                                 (Inl e, w2\<lparr>cached_bs_page := Some marked,
                                            files := (files w2)(jspath \<mapsto> json_dumps E JSON)\<rparr>)
                             | None \<Rightarrow>
                                 (Inr (),
                                  w2\<lparr>cached_bs_page := Some marked,
                                     files := (files w2)
                                       (jspath \<mapsto> json_dumps E JSON,
                                        webpath \<mapsto>
                                          (if jspath = webpath
                                           then shared_file E (json_dumps E JSON) (prettify E marked)
                                           else prettify E marked))\<rparr>)))))))"


text \<open>
  \<open>read_disk_cache\<close> returns what it printed. The handler catches \<open>IOError\<close> only:
  the \<open>ValueError\<close> of \<open>json.loads\<close>, the \<open>AttributeError\<close> of \<open>l.string\<close> when no
  comment is found (\<open>l\<close> is \<open>None\<close>) and the \<open>IndexError\<close> of \<open>[1]\<close> leave the
  function.
\<close>

definition read_disk_cache ::
  "'t env \<Rightarrow> string \<Rightarrow> string \<Rightarrow> 't world \<Rightarrow> (py_error + string list) \<times> 't world" where
  "read_disk_cache E jspath webpath w =
     (let w0 = w\<lparr>cached_language := ''''\<rparr> in
      case files w0 jspath of
        None \<Rightarrow> (Inr [''Could not load from disk.''], w0)
      | Some jstext \<Rightarrow>
          (case files w0 webpath of
             None \<Rightarrow> (Inr [''Could not load from disk.''], w0)
           | Some webtext \<Rightarrow>
               (case json_loads E jstext of
                  None \<Rightarrow> (Inl ValueError, w0)
                | Some tmp_json \<Rightarrow>
                    (let tmp_page = BeautifulSoup E webtext;
                         w1 = w0\<lparr>cached_json := Some tmp_json, cached_bs_page := Some tmp_page\<rparr>
                     in case first_comment (\<lambda>t. take 9 t = ''LANGUAGE='') tmp_page of
                          None \<Rightarrow> (Inl AttributeError, w1)
                        | Some l \<Rightarrow>
                            (case split_on CHR ''='' l of
                               a # b # _ \<Rightarrow> (Inr [], w1\<lparr>cached_language := b\<rparr>)
                             | _ \<Rightarrow> (Inl IndexError, w1))))))"

section \<open>Concrete data\<close>

text \<open>Two records used to evaluate the filter engine on concrete inputs.\<close>

definition axe :: Hero where
  "axe = \<lparr>name = ''Axe'', icon = ''axe.png'', attr = Some ''Strength'', faction = ''Radiant'',
          bio = ''bio'', roles = [''Carry'', ''Durable''], attack = ''Melee'',
          key = ''npc_dota_hero_axe''\<rparr>"

definition lina :: Hero where
  "lina = \<lparr>name = ''Lina'', icon = ''lina.png'', attr = Some ''Intelligence'', faction = ''Radiant'',
           bio = ''bio'', roles = [''Nuker''], attack = ''Ranged'',
           key = ''npc_dota_hero_lina''\<rparr>"

text \<open>
  A page of the shape the code expects: each hero is a link holding its image, inside a
  box, inside a column section. The first left column lists Radiant heroes, the second
  one Dire heroes.
\<close>

definition hero_link :: "string \<Rightarrow> string \<Rightarrow> node" where
  "hero_link k src =
     Tag ''a'' [(''id'', ''link_'' @ k)] (Some [''heroPickerIconLink''])
       [Tag ''img'' [(''src'', src)] None []]"

definition column :: "string \<Rightarrow> node list \<Rightarrow> node" where
  "column c links = Tag ''div'' [] (Some [c]) [Tag ''div'' [] None links]"

definition heroes_page :: "string \<Rightarrow> node" where
  "heroes_page title =
     Tag ''[document]'' [] None
       [Tag ''html'' [] None
          [Tag ''head'' [] None [Tag ''title'' [] None [NavigableString title]],
           Tag ''body'' [] None
             [column ''heroColLeft'' [hero_link ''axe'' ''axe.png''],
              column ''heroColRight'' [hero_link ''lina'' ''lina.png''],
              column ''heroColLeft'' [hero_link ''pudge'' ''pudge.png'']]]]"






definition feed_en :: feed where
  "feed_en = [(''axe'', FeedEntry ''Axe'' ''bio'' [''Carry'', ''Durable''] ''Melee''),
              (''zeus'', FeedEntry ''Zeus'' ''bio'' [''Nuker''] ''Ranged''),
              (''lina'', FeedEntry ''Lina'' ''bio'' [''Nuker''] ''Ranged'')]"

definition feed_fr :: feed where
  "feed_fr = [(''axe'', FeedEntry ''Axe'' ''biographie'' [''Porteur''] ''Corps a corps'')]"

text \<open>
  Markup made of text and comments only, as the parser reads it: a comment runs from
  \<open><!--\<close> to the first \<open>-->\<close> after it (to the end when there is none), the text
  between comments is a string.
\<close>

fun markup_nodes :: "string \<Rightarrow> string \<Rightarrow> node list"
  and comment_nodes :: "string \<Rightarrow> string \<Rightarrow> node list" where
  "markup_nodes acc [] = (if acc = [] then [] else [NavigableString (rev acc)])"
| "markup_nodes acc (c # s) =
     (if prefix ''<!--'' (c # s)
      then (if acc = [] then [] else [NavigableString (rev acc)]) @ comment_nodes [] (drop 3 s)
      else markup_nodes (c # acc) s)"
| "comment_nodes acc [] = [Comment (rev acc)]"
| "comment_nodes acc (c # s) =
     (if prefix ''-->'' (c # s) then Comment (rev acc) # markup_nodes [] (drop 2 s)
      else comment_nodes (c # acc) s)"

text \<open>
  An environment in which a text is what it parses to: a printed page, a printed feed,
  an empty file, a string built by the program (parsed as text and comments), or one
  text written over another. The site serves an English and a French page and feed;
  every path is writable and no write fails.
\<close>

datatype filetext = Markup node | Json feed | Blank | Literal string | Over filetext filetext

definition site :: "filetext env" where
  "site = \<lparr>
     http_text = (\<lambda>u. if u = page_url @ ''?l='' then Inr (Markup (heroes_page ''Heroes''))
                       else if u = page_url @ ''?l=fr'' then Inr (Markup (heroes_page ''Heros''))
                       else Inl RequestException),
     http_json = (\<lambda>u. if u = json_url @ ''?l='' then Inr feed_en
                       else if u = json_url @ ''?l=fr'' then Inr feed_fr
                       else Inl RequestException),
     BeautifulSoup = (\<lambda>t. case t of Markup d \<Rightarrow> d
                             | Literal s \<Rightarrow> Tag ''[document]'' [] None (markup_nodes [] s)
                             | _ \<Rightarrow> Tag ''[document]'' [] None []),
     prettify = Markup,
     json_dumps = Json,
     json_loads = (\<lambda>t. case t of Json j \<Rightarrow> Some j | _ \<Rightarrow> None),
     empty_text = Blank,
     writable = (\<lambda>p. True),
     literal = Literal,
     write_error = (\<lambda>p t. None),
     shared_file = Over\<rparr>"

text \<open>The state of a process that has just imported the module, with no file on disk.\<close>

definition fresh :: "filetext world" where
  "fresh = \<lparr>cached_json = None, cached_bs_page = None, cached_language = '''',
            files = (\<lambda>p. None), requested = []\<rparr>"

text \<open>The state after the English page and feed were fetched.\<close>

definition english :: "filetext world" where
  "english = \<lparr>cached_json = Some feed_en, cached_bs_page = Some (heroes_page ''Heroes''),
              cached_language = '''', files = (\<lambda>p. None),
              requested = [page_url @ ''?l='', json_url @ ''?l='']\<rparr>"

text \<open>The state after the French page and feed were fetched under the language \<open>fr\<close>.\<close>

definition french :: "filetext world" where
  "french = \<lparr>cached_json = Some feed_fr, cached_bs_page = Some (heroes_page ''Heros''),
             cached_language = ''fr'', files = (\<lambda>p. None),
             requested = [page_url @ ''?l=fr'', json_url @ ''?l=fr'']\<rparr>"

section \<open>Properties of the filter engine\<close>

lemma filter_first_find:
  "(case filter P xs of [] \<Rightarrow> None | h # _ \<Rightarrow> Some h) = List.find P xs"
  by (induction xs) auto

text \<open>
  Claim C1. \<open>find_heroes\<close> returns exactly the records that satisfy all supplied
  criteria, in the order of the input: the name criterion holds when it is empty or
  equals the record's name or its key; the attribute and attack criteria hold when
  unspecified or equal; the roles criterion holds when unspecified or when the requested
  roles are a subset of the record's roles. With no criterion the result is the input.
\<close>

theorem find_heroes_exact:
  "find_heroes hlist nm attribute role atk =
     filter (\<lambda>h. (nm = '''' \<or> name h = nm \<or> key h = nm)
                \<and> (case attribute of None \<Rightarrow> True | Some a \<Rightarrow> attr h = Some a)
                \<and> (case role of None \<Rightarrow> True | Some r \<Rightarrow> set r \<subseteq> set (roles h))
                \<and> (case atk of None \<Rightarrow> True | Some k \<Rightarrow> attack h = k)) hlist
   \<and> find_heroes hlist '''' None None None = hlist"
proof
  have "\<And>h. (match_name nm h \<and> match_attr attribute h \<and> match_attack atk h \<and> match_role role h) =
      ((nm = '''' \<or> name h = nm \<or> key h = nm)
        \<and> (case attribute of None \<Rightarrow> True | Some a \<Rightarrow> attr h = Some a)
        \<and> (case role of None \<Rightarrow> True | Some r \<Rightarrow> set r \<subseteq> set (roles h))
        \<and> (case atk of None \<Rightarrow> True | Some k \<Rightarrow> attack h = k))"
    by (auto simp: match_name_def match_attr_def match_attack_def match_role_def
        split: option.splits)
  then show "find_heroes hlist nm attribute role atk =
     filter (\<lambda>h. (nm = '''' \<or> name h = nm \<or> key h = nm)
                \<and> (case attribute of None \<Rightarrow> True | Some a \<Rightarrow> attr h = Some a)
                \<and> (case role of None \<Rightarrow> True | Some r \<Rightarrow> set r \<subseteq> set (roles h))
                \<and> (case atk of None \<Rightarrow> True | Some k \<Rightarrow> attack h = k)) hlist"
    by (simp add: find_heroes_def conj_commute conj_left_commute)
  show "find_heroes hlist '''' None None None = hlist"
    by (simp add: find_heroes_def match_name_def match_attr_def match_attack_def match_role_def)
qed

theorem find_heroes_exact_witness:
  "find_heroes [axe, lina, axe] '''' None (Some [''Carry'']) (Some ''Melee'') = [axe, axe]
   \<and> find_heroes [axe, lina] ''npc_dota_hero_lina'' None None None = [lina]
   \<and> find_heroes [axe, lina] '''' None (Some [''Carry'', ''Initiator'']) None = []
   \<and> find_heroes [lina, axe] '''' None None None = [lina, axe]"
  using find_heroes_exact [of "[axe, lina, axe]" "''''" None "Some [''Carry'']" "Some ''Melee''"]
    find_heroes_exact [of "[axe, lina]" "''npc_dota_hero_lina''" None None None]
    find_heroes_exact [of "[axe, lina]" "''''" None "Some [''Carry'', ''Initiator'']" None]
    find_heroes_exact [of "[lina, axe]" "''''" None None None]
  by (simp add: axe_def lina_def)

text \<open>
  Claim C7. \<open>find_first_hero\<close> returns the first record, in input order, that
  satisfies the criteria, and the sentinel \<open>None\<close> when no record does. The result is
  an ordinary value in both cases: the function has no failing branch.
\<close>

theorem find_first_hero_first_or_none:
  "find_first_hero hlist nm attribute role atk =
     List.find (\<lambda>h. (nm = '''' \<or> name h = nm \<or> key h = nm)
                \<and> (case attribute of None \<Rightarrow> True | Some a \<Rightarrow> attr h = Some a)
                \<and> (case role of None \<Rightarrow> True | Some r \<Rightarrow> set r \<subseteq> set (roles h))
                \<and> (case atk of None \<Rightarrow> True | Some k \<Rightarrow> attack h = k)) hlist"
proof -
  have "\<And>h. (match_name nm h \<and> match_attr attribute h \<and> match_attack atk h \<and> match_role role h) =
      ((nm = '''' \<or> name h = nm \<or> key h = nm)
        \<and> (case attribute of None \<Rightarrow> True | Some a \<Rightarrow> attr h = Some a)
        \<and> (case role of None \<Rightarrow> True | Some r \<Rightarrow> set r \<subseteq> set (roles h))
        \<and> (case atk of None \<Rightarrow> True | Some k \<Rightarrow> attack h = k))"
    by (auto simp: match_name_def match_attr_def match_attack_def match_role_def
        split: option.splits)
  then have "find_heroes hlist nm attribute role atk =
     filter (\<lambda>h. (nm = '''' \<or> name h = nm \<or> key h = nm)
                \<and> (case attribute of None \<Rightarrow> True | Some a \<Rightarrow> attr h = Some a)
                \<and> (case role of None \<Rightarrow> True | Some r \<Rightarrow> set r \<subseteq> set (roles h))
                \<and> (case atk of None \<Rightarrow> True | Some k \<Rightarrow> attack h = k)) hlist"
    by (simp add: find_heroes_def conj_commute conj_left_commute)
  then show ?thesis
    by (simp add: find_first_hero_def filter_first_find)
qed

theorem find_first_hero_first_or_none_witness:
  "find_first_hero [axe, lina] ''nonexistent_key'' None None None = None
   \<and> find_first_hero [lina, axe, axe] '''' None (Some [''Durable'']) None = Some axe
   \<and> find_first_hero [] ''Axe'' None None None = None"
  using find_first_hero_first_or_none [of "[axe, lina]" "''nonexistent_key''" None None None]
    find_first_hero_first_or_none [of "[lina, axe, axe]" "''''" None "Some [''Durable'']" None]
    find_first_hero_first_or_none [of "[]" "''Axe''" None None None]
  by (simp add: axe_def lina_def)

section \<open>Documents: paths and document order\<close>

text \<open>
  \<open>descendants\<close> lists exactly the nodes reachable by a non-empty path, in the
  lexicographic order of their paths, which is document order. So the first element of
  \<open>find_all\<close> is the match with the least path.
\<close>

lemma descendants_iff:
  "((p, d) \<in> set (descendants n)) = (p \<noteq> [] \<and> node_at n p = Some d)"
  "((p, d) \<in> set (descendants_from i cs)) =
     (\<exists>j q. p = (i + j) # q \<and> j < length cs \<and> node_at (cs ! j) q = Some d)"
proof (induction n and i cs arbitrary: p d and p d rule: descendants_descendants_from.induct)
  case (1 nm a cl cs)
  show ?case
    by (cases p) (auto simp: 1)
next
  case (2 s)
  show ?case by (cases p) auto
next
  case (3 s)
  show ?case by (cases p) auto
next
  case (4 i)
  show ?case by simp
next
  case (5 i c cs)
  show ?case
  proof
    assume "(p, d) \<in> set (descendants_from i (c # cs))"
    then consider "p = [i] \<and> d = c" | q where "p = i # q" "(q, d) \<in> set (descendants c)"
      | "(p, d) \<in> set (descendants_from (Suc i) cs)"
      by auto
    then show "\<exists>j q. p = (i + j) # q \<and> j < length (c # cs) \<and> node_at ((c # cs) ! j) q = Some d"
    proof cases
      case 1
      then have "p = (i + 0) # [] \<and> 0 < length (c # cs) \<and> node_at ((c # cs) ! 0) [] = Some d"
        by simp
      then show ?thesis by blast
    next
      case 2
      then have "p = (i + 0) # q \<and> 0 < length (c # cs) \<and> node_at ((c # cs) ! 0) q = Some d"
        by (simp add: 5)
      then show ?thesis by blast
    next
      case 3
      then obtain j q where "p = (Suc i + j) # q" "j < length cs" "node_at (cs ! j) q = Some d"
        unfolding 5 by blast
      then have "p = (i + Suc j) # q \<and> Suc j < length (c # cs) \<and> node_at ((c # cs) ! Suc j) q = Some d"
        by simp
      then show ?thesis by blast
    qed
  next
    assume "\<exists>j q. p = (i + j) # q \<and> j < length (c # cs) \<and> node_at ((c # cs) ! j) q = Some d"
    then obtain j q where jq: "p = (i + j) # q" "j < length (c # cs)" "node_at ((c # cs) ! j) q = Some d"
      by blast
    show "(p, d) \<in> set (descendants_from i (c # cs))"
    proof (cases j)
      case 0
      show ?thesis
      proof (cases q)
        case Nil
        with 0 jq show ?thesis by simp
      next
        case (Cons x xs)
        with 0 jq have "(q, d) \<in> set (descendants c)" by (simp add: 5)
        with 0 jq show ?thesis by force
      qed
    next
      case (Suc j')
      with jq have "(p, d) \<in> set (descendants_from (Suc i) cs)"
        unfolding 5 by auto
      then show ?thesis by simp
    qed
  qed
qed




lemma find_all_first_node:
  assumes "find_all P page = (p, t) # rest"
  shows "p \<noteq> [] \<and> node_at page p = Some t \<and> P t"
proof -
  have "(p, t) \<in> set (filter (\<lambda>(p, n). P n) (descendants page))"
    using assms unfolding find_all_def by simp
  then show ?thesis by (auto simp: descendants_iff)
qed





lemma div_with_class_is_tag:
  "div_with_class cls m \<Longrightarrow> \<exists>a cl cs. m = Tag ''div'' a cl cs"
  by (cases m) auto



lemma bs_find_named:
  assumes "bs_find (named nm) d = Some (h, t)"
  shows "h \<noteq> [] \<and> node_at d h = Some t \<and> (\<exists>a cl cs. t = Tag nm a cl cs)"
proof -
  from assms obtain rest where "find_all (named nm) d = (h, t) # rest"
    by (auto simp: bs_find_def split: list.splits)
  from find_all_first_node [OF this] show ?thesis
    by (cases t) auto
qed

section \<open>Appending to a tag and counting markers\<close>


lemma sum_list_zero_iff_nat:
  "(sum_list (ns :: nat list) = 0) = (\<forall>n \<in> set ns. n = 0)"
  by (induction ns) auto




lemma first_comment_none_iff:
  "(first_comment is_marker d = None) = (count_markers d = 0)"
  "(first_comment_in is_marker ds = None) = (sum_list (map count_markers ds) = 0)"
  by (induction is_marker d and is_marker ds rule: first_comment_first_comment_in.induct)
    (auto split: option.splits)

lemma first_comment_in_append:
  "first_comment_in P (xs @ ys) =
     (case first_comment_in P xs of Some s \<Rightarrow> Some s | None \<Rightarrow> first_comment_in P ys)"
  by (induction xs) (auto split: option.splits)

lemma first_comment_in_update:
  "i < length xs \<Longrightarrow> \<forall>x \<in> set xs. first_comment P x = None \<Longrightarrow> first_comment P y = Some s \<Longrightarrow>
   first_comment_in P (xs[i := y]) = Some s"
proof (induction xs arbitrary: i)
  case Nil
  then show ?case by simp
next
  case (Cons x xs)
  then show ?case by (cases i) auto
qed

lemma first_comment_append_at:
  "node_at d h = Some (Tag n a cl cs) \<Longrightarrow> count_markers d = 0 \<Longrightarrow> is_marker s \<Longrightarrow>
   first_comment is_marker (append_at h [Comment s] d) = Some s"
proof (induction h "[Comment s]" d rule: append_at.induct)
  case (1 n' a' cl' cs')
  then have "first_comment_in is_marker cs' = None"
    by (simp add: first_comment_none_iff)
  with 1 show ?case by (simp add: first_comment_in_append)
next
  case (2 i p n' a' cl' cs')
  then have i: "i < length cs'" and at: "node_at (cs' ! i) p = Some (Tag n a cl cs)"
    by (auto split: if_splits)
  from 2(3) have all: "\<forall>x \<in> set cs'. count_markers x = 0"
    by (simp add: sum_list_zero_iff_nat)
  with i have "count_markers (cs' ! i) = 0" by simp
  from 2(1) [OF at this 2(4)]
  have "first_comment is_marker (append_at p [Comment s] (cs' ! i)) = Some s" .
  moreover from all have "\<forall>x \<in> set cs'. first_comment is_marker x = None"
    by (simp add: first_comment_none_iff)
  ultimately show ?case using i by (simp add: first_comment_in_update)
next
  case (3 p s')
  then show ?case by (cases p) simp_all
next
  case (4 p s')
  then show ?case by (cases p) simp_all
qed

lemma split_on_absent: "sep \<notin> set l \<Longrightarrow> split_on sep l = [l]"
  by (induction l) auto

lemma split_language_marker:
  "CHR ''='' \<notin> set l \<Longrightarrow> split_on CHR ''='' (''LANGUAGE='' @ l) = [''LANGUAGE'', l]"
  by (simp add: split_on_absent)

section \<open>Properties of the cache\<close>

lemma get_web_page_cached:
  "cached_bs_page w = Some d \<Longrightarrow> lang = '''' \<or> cached_language w = lang \<Longrightarrow>
   get_web_page E url lang w = (Inr d, w)"
  by (auto simp: get_web_page_def)

lemma get_json_list_cached:
  "cached_json w = Some j \<Longrightarrow> lang = '''' \<or> cached_language w = lang \<Longrightarrow>
   get_json_list E url lang w = (Inr j, w)"
  by (auto simp: get_json_list_def)

lemma get_json_list_frame:
  "get_json_list E u l w = (r, w1) \<Longrightarrow>
   cached_bs_page w1 = cached_bs_page w \<and> cached_language w1 = cached_language w
   \<and> files w1 = files w"
  by (auto simp: get_json_list_def Let_def split: if_splits sum.splits)

text \<open>
  With the default language, \<open>get_json_list()\<close> and \<open>get_web_page()\<close> look only at
  their own cache slot: what they return, and whether they raise, does not depend on the
  files or on the other slot.
\<close>

lemma get_json_list_default:
  "fst (get_json_list E u '''' w) = Inr j \<Longrightarrow> cached_json w' = cached_json w \<Longrightarrow>
   get_json_list E u '''' w' = (Inr j, snd (get_json_list E u '''' w'))
   \<and> cached_json (snd (get_json_list E u '''' w')) = Some j"
  by (auto simp: get_json_list_def Let_def split: if_splits sum.splits)

lemma get_web_page_default:
  "fst (get_web_page E u '''' w) = Inr d \<Longrightarrow> cached_bs_page w' = cached_bs_page w \<Longrightarrow>
   get_web_page E u '''' w' = (Inr d, snd (get_web_page E u '''' w'))
   \<and> cached_bs_page (snd (get_web_page E u '''' w')) = Some d
   \<and> cached_language (snd (get_web_page E u '''' w')) = cached_language w'
   \<and> cached_json (snd (get_web_page E u '''' w')) = cached_json w'
   \<and> files (snd (get_web_page E u '''' w')) = files w'"
  by (auto simp: get_web_page_def Let_def split: if_splits sum.splits)

lemma get_json_list_default_error:
  "fst (get_json_list E u '''' w') = Inl e \<Longrightarrow> cached_json w' = cached_json w \<Longrightarrow>
   fst (get_json_list E u '''' w) = Inl e"
  by (auto simp: get_json_list_def Let_def split: if_splits sum.splits)

lemma get_web_page_default_error:
  "fst (get_web_page E u '''' w') = Inl e \<Longrightarrow> cached_bs_page w' = cached_bs_page w \<Longrightarrow>
   fst (get_web_page E u '''' w) = Inl e"
  by (auto simp: get_web_page_def Let_def split: if_splits sum.splits)



text \<open>
  Claim C2. The claim says that \<open>set_language(L)\<close>, called with a cached document
  and feed and a language \<open>L\<close> that differs from the cached one, refetches both for
  \<open>L\<close>. The code does not: it stores \<open>L\<close> in \<open>_cached_language\<close> before it calls
  \<open>get_web_page(lang=L)\<close> and \<open>get_json_list(lang=L)\<close>, whose test
  \<open>_cached_language != lang\<close> is then false. Whenever the cache holds a document and a
  feed, \<open>set_language\<close> returns with the language replaced and nothing else changed: no
  request is made and the old document and feed stay, for every \<open>L\<close>. (For \<open>L\<close> equal to
  the cached language this is the no-op the claim describes.) The docstring of
  \<open>set_language\<close> promises the reload.
\<close>

theorem set_language_never_refetches:
  assumes "cached_bs_page w = Some d" and "cached_json w = Some j"
  shows "set_language E lang w = (Inr (), w\<lparr>cached_language := lang\<rparr>)"
proof (cases "cached_language w = lang")
  case True
  then have "w\<lparr>cached_language := lang\<rparr> = w" by simp
  with True show ?thesis by (simp add: set_language_def)
next
  case False
  have "get_web_page E page_url lang (w\<lparr>cached_language := lang\<rparr>) = (Inr d, w\<lparr>cached_language := lang\<rparr>)"
    using assms by (intro get_web_page_cached) simp_all
  moreover have "get_json_list E json_url lang (w\<lparr>cached_language := lang\<rparr>) = (Inr j, w\<lparr>cached_language := lang\<rparr>)"
    using assms by (intro get_json_list_cached) simp_all
  ultimately show ?thesis using False by (simp add: set_language_def)
qed

theorem set_language_never_refetches_witness:
  "set_language site ''fr'' english = (Inr (), english\<lparr>cached_language := ''fr''\<rparr>)
   \<and> cached_language english = ''''
   \<and> requested (snd (set_language site ''fr'' english)) = [page_url @ ''?l='', json_url @ ''?l='']
   \<and> cached_bs_page (snd (set_language site ''fr'' english)) = Some (heroes_page ''Heroes'')
   \<and> cached_json (snd (set_language site ''fr'' english)) = Some feed_en
   \<and> http_text site (page_url @ ''?l=fr'') = Inr (Markup (heroes_page ''Heros''))
   \<and> http_json site (json_url @ ''?l=fr'') = Inr feed_fr"
proof -
  have "cached_bs_page english = Some (heroes_page ''Heroes'')" "cached_json english = Some feed_en"
    by (simp_all add: english_def)
  from set_language_never_refetches [OF this, of site "''fr''"]
  show ?thesis by (simp add: english_def site_def)
qed

text \<open>
  The reload \<open>set_language\<close> does perform: from a cache with neither document nor feed,
  a new language \<open>L\<close> is stored and both are fetched with \<open>?l=L\<close>, when the
  network answers.
\<close>

theorem set_language_fills_empty_cache:
  assumes "cached_bs_page w = None" and "cached_json w = None"
    and "cached_language w \<noteq> lang"
    and "http_text E (page_url @ ''?l='' @ lang) = Inr raw"
    and "http_json E (json_url @ ''?l='' @ lang) = Inr j"
  shows "set_language E lang w =
           (Inr (), w\<lparr>cached_language := lang,
                       requested := requested w @ [page_url @ ''?l='' @ lang, json_url @ ''?l='' @ lang],
                       cached_bs_page := Some (BeautifulSoup E raw),
                       cached_json := Some j\<rparr>)"
  using assms by (simp add: set_language_def get_web_page_def get_json_list_def)

theorem set_language_fills_empty_cache_witness:
  "set_language site ''fr'' fresh = (Inr (), french)"
proof -
  have a: "cached_bs_page fresh = None" "cached_json fresh = None" "cached_language fresh \<noteq> ''fr''"
    by (simp_all add: fresh_def)
  have b: "http_text site (page_url @ ''?l='' @ ''fr'') = Inr (Markup (heroes_page ''Heros''))"
    by (simp add: site_def)
  have c: "http_json site (json_url @ ''?l='' @ ''fr'') = Inr feed_fr"
    by (simp add: site_def)
  show ?thesis
    using set_language_fills_empty_cache [OF a b c]
    by (simp add: fresh_def french_def site_def)
qed

text \<open>
  Claim C5. The claim says that after any sequence of the cache operations the cached
  document and feed were fetched under the recorded language. The code breaks it. On a
  site that serves different English and French pages: a process fetches the page and the
  feed in the default language, then calls \<open>set_language("fr")\<close>; the cache now
  records \<open>fr\<close> and still holds the English page, and no French URL was requested.
  Also \<open>get_web_page(lang="fr")\<close> on the English cache does refetch (the part of the
  claim about read requests holds) and caches the French page, and leaves the recorded
  language empty.
\<close>

theorem cache_language_invariant_broken:
  "get_web_page site page_url '''' fresh
     = (Inr (heroes_page ''Heroes''),
        fresh\<lparr>requested := [page_url @ ''?l=''], cached_bs_page := Some (heroes_page ''Heroes'')\<rparr>)
   \<and> get_json_list site json_url ''''
        (fresh\<lparr>requested := [page_url @ ''?l=''], cached_bs_page := Some (heroes_page ''Heroes'')\<rparr>)
     = (Inr feed_en, english)
   \<and> set_language site ''fr'' english = (Inr (), english\<lparr>cached_language := ''fr''\<rparr>)
   \<and> cached_bs_page (english\<lparr>cached_language := ''fr''\<rparr>) = Some (heroes_page ''Heroes'')
   \<and> requested (english\<lparr>cached_language := ''fr''\<rparr>) = [page_url @ ''?l='', json_url @ ''?l='']
   \<and> http_text site (page_url @ ''?l=fr'') = Inr (Markup (heroes_page ''Heros''))
   \<and> heroes_page ''Heros'' \<noteq> heroes_page ''Heroes''
   \<and> get_web_page site page_url ''fr'' english
     = (Inr (heroes_page ''Heros''),
        english\<lparr>requested := [page_url @ ''?l='', json_url @ ''?l='', page_url @ ''?l=fr''],
                cached_bs_page := Some (heroes_page ''Heros'')\<rparr>)
   \<and> cached_language
        (english\<lparr>requested := [page_url @ ''?l='', json_url @ ''?l='', page_url @ ''?l=fr''],
                cached_bs_page := Some (heroes_page ''Heros'')\<rparr>) = ''''"
  by (simp add: get_web_page_def get_json_list_def set_language_def site_def fresh_def
      english_def heroes_page_def)

section \<open>Properties of the merger\<close>

lemma heroes_of_append:
  "heroes_of E (pre @ rest) w =
     (case heroes_of E pre w of
        ((hs, Some e), w1) \<Rightarrow> ((hs, Some e), w1)
      | ((hs, None), w1) \<Rightarrow>
          (case heroes_of E rest w1 of ((hs', r), w2) \<Rightarrow> ((hs @ hs', r), w2)))"
proof (induction pre arbitrary: w)
  case Nil
  then show ?case by (simp split: prod.splits)
next
  case (Cons x pre)
  obtain k H where x: "x = (k, H)" by (cases x)
  show ?case
    unfolding x by (simp add: Cons split: prod.splits sum.splits option.splits)
qed

text \<open>
  Claim C8. When the iteration of \<open>get_all_heroes\<close> reaches a key \<open>k\<close> that no
  tag of the document matches, \<open>get_hero_info(k)\<close> raises \<open>IndexError\<close>, a
  \<open>LookupError\<close>; the iteration ends with that error after the records of the earlier
  keys, which were yielded, and yields nothing for \<open>k\<close> or the keys after it. The
  document is what \<open>get_web_page()\<close> returns at that moment, the feed what
  \<open>get_json_list()\<close> returned.
\<close>

theorem missing_fragment_is_lookup_error:
  assumes "get_json_list E json_url '''' w = (Inr (pre @ (k, H) # post), w0)"
    and "heroes_of E pre w0 = ((yielded, None), w1)"
    and "get_web_page E page_url '''' w1 = (Inr page, w2)"
    and "find_all (matches_hero k) page = []"
  shows "get_hero_info E k w1 = (Inl IndexError, w2)
         \<and> is_LookupError IndexError
         \<and> get_all_heroes E w = ((yielded, Some IndexError), w2)"
proof -
  have one: "get_hero_info E k w1 = (Inl IndexError, w2)"
    using assms(3,4) by (simp add: get_hero_info_def hero_info_def)
  then have "heroes_of E ((k, H) # post) w1 = (([], Some IndexError), w2)"
    by simp
  then have "heroes_of E (pre @ (k, H) # post) w0 = ((yielded, Some IndexError), w2)"
    using assms(2) by (simp add: heroes_of_append)
  then have "get_all_heroes E w = ((yielded, Some IndexError), w2)"
    using assms(1) by (simp add: get_all_heroes_def)
  with one show ?thesis by (simp add: is_LookupError_def)
qed

theorem missing_fragment_is_lookup_error_witness:
  "get_hero_info site ''zeus'' english = (Inl IndexError, english)
   \<and> is_LookupError IndexError
   \<and> get_all_heroes site english =
       (([\<lparr>name = ''Axe'', icon = ''axe.png'', attr = Some ''Strength'', faction = ''Radiant'',
            bio = ''bio'', roles = [''Carry'', ''Durable''], attack = ''Melee'', key = ''axe''\<rparr>],
         Some IndexError), english)"
proof -
  have page: "\<And>E. get_web_page E page_url '''' english = (Inr (heroes_page ''Heroes''), english)"
    by (simp add: get_web_page_def english_def)
  have a: "get_json_list site json_url '''' english =
      (Inr ([(''axe'', FeedEntry ''Axe'' ''bio'' [''Carry'', ''Durable''] ''Melee'')]
            @ (''zeus'', FeedEntry ''Zeus'' ''bio'' [''Nuker''] ''Ranged'')
            # [(''lina'', FeedEntry ''Lina'' ''bio'' [''Nuker''] ''Ranged'')]), english)"
    by (simp add: get_json_list_def english_def feed_en_def)
  have axe: "hero_info (heroes_page ''Heroes'') ''axe'' = Inr (''axe.png'', Some ''Strength'', ''Radiant'')"
    by (simp add: hero_info_def find_all_def bs_find_def heroes_page_def column_def hero_link_def
        parent_parent_def hero_attribute_def)
  have b: "heroes_of site [(''axe'', FeedEntry ''Axe'' ''bio'' [''Carry'', ''Durable''] ''Melee'')] english =
      (([\<lparr>name = ''Axe'', icon = ''axe.png'', attr = Some ''Strength'', faction = ''Radiant'',
            bio = ''bio'', roles = [''Carry'', ''Durable''], attack = ''Melee'', key = ''axe''\<rparr>],
        None), english)"
    by (simp add: get_hero_info_def page axe)
  have c: "find_all (matches_hero ''zeus'') (heroes_page ''Heroes'') = []"
    by (simp add: find_all_def heroes_page_def column_def hero_link_def)
  show ?thesis
    using missing_fragment_is_lookup_error [OF a b page c] by simp
qed




section \<open>Properties of the disk snapshot\<close>

text \<open>
  Claim C4. The claim says that \<open>read_disk_cache\<close> leaves the whole cache state,
  language included, as it was when a snapshot file is missing. The code resets
  \<open>_cached_language\<close> to the empty string before it opens the files and does not put it
  back: when either file cannot be opened the call prints its message and returns, the
  document and the feed are untouched, and the language is empty whatever it was. The
  comment in the handler says to leave the globals as they were found.
\<close>

theorem read_disk_cache_missing_file:
  assumes "files w jspath = None \<or> files w webpath = None"
  shows "read_disk_cache E jspath webpath w =
           (Inr [''Could not load from disk.''], w\<lparr>cached_language := ''''\<rparr>)"
  using assms by (auto simp: read_disk_cache_def Let_def split: option.splits)

theorem read_disk_cache_missing_file_witness:
  "read_disk_cache site ''cached_list.json'' ''cached_webpage.html'' french
     = (Inr [''Could not load from disk.''], french\<lparr>cached_language := ''''\<rparr>)
   \<and> cached_language french = ''fr''
   \<and> read_disk_cache site ''cached_list.json'' ''cached_webpage.html''
        (french\<lparr>files := (files french)(''cached_list.json'' \<mapsto> Json feed_en)\<rparr>)
     = (Inr [''Could not load from disk.''],
        french\<lparr>files := (files french)(''cached_list.json'' \<mapsto> Json feed_en),
               cached_language := ''''\<rparr>)"
proof -
  have a: "files french ''cached_list.json'' = None \<or> files french ''cached_webpage.html'' = None"
    by (simp add: french_def)
  have b: "files (french\<lparr>files := (files french)(''cached_list.json'' \<mapsto> Json feed_en)\<rparr>)
             ''cached_list.json'' = None
           \<or> files (french\<lparr>files := (files french)(''cached_list.json'' \<mapsto> Json feed_en)\<rparr>)
             ''cached_webpage.html'' = None"
    by (simp add: french_def)
  show ?thesis
    using read_disk_cache_missing_file [OF a, of site] read_disk_cache_missing_file [OF b, of site]
    by (simp add: french_def)
qed

text \<open>
  Claim C10. When both files can be read, the feed file holds JSON and the parsed
  document file has no comment starting with \<open>LANGUAGE=\<close>, \<open>read_disk_cache\<close>
  raises \<open>AttributeError\<close>, which is not the \<open>IOError\<close> its handler catches, after
  it has replaced the cached feed and document and reset the cached language to the empty
  string. Nothing is printed.
\<close>

theorem read_disk_cache_no_marker:
  assumes "files w jspath = Some jstext" and "files w webpath = Some webtext"
    and "json_loads E jstext = Some j"
    and "count_markers (BeautifulSoup E webtext) = 0"
  shows "read_disk_cache E jspath webpath w =
           (Inl AttributeError,
            w\<lparr>cached_language := '''', cached_json := Some j,
              cached_bs_page := Some (BeautifulSoup E webtext)\<rparr>)
         \<and> AttributeError \<noteq> IOError"
proof -
  have "first_comment (\<lambda>t. take 9 t = ''LANGUAGE='') (BeautifulSoup E webtext) = None"
    using assms(4) first_comment_none_iff(1) [of "BeautifulSoup E webtext"]
    by (simp add: is_marker_def [abs_def])
  with assms show ?thesis
    by (simp add: read_disk_cache_def Let_def)
qed

theorem read_disk_cache_no_marker_witness:
  "read_disk_cache site ''cached_list.json'' ''cached_webpage.html''
     (french\<lparr>files := (files french)(''cached_list.json'' \<mapsto> Json feed_en,
                                       ''cached_webpage.html'' \<mapsto> Markup (heroes_page ''Heroes''))\<rparr>)
   = (Inl AttributeError,
      french\<lparr>files := (files french)(''cached_list.json'' \<mapsto> Json feed_en,
                                       ''cached_webpage.html'' \<mapsto> Markup (heroes_page ''Heroes'')),
             cached_language := '''', cached_json := Some feed_en,
             cached_bs_page := Some (heroes_page ''Heroes'')\<rparr>)
   \<and> AttributeError \<noteq> IOError"
proof -
  let ?w = "french\<lparr>files := (files french)(''cached_list.json'' \<mapsto> Json feed_en,
                                       ''cached_webpage.html'' \<mapsto> Markup (heroes_page ''Heroes''))\<rparr>"
  have a: "files ?w ''cached_list.json'' = Some (Json feed_en)" by simp
  have b: "files ?w ''cached_webpage.html'' = Some (Markup (heroes_page ''Heroes''))" by simp
  have c: "json_loads site (Json feed_en) = Some feed_en" by (simp add: site_def)
  have d: "count_markers (BeautifulSoup site (Markup (heroes_page ''Heroes''))) = 0"
    by (simp add: site_def heroes_page_def column_def hero_link_def)
  show ?thesis
    using read_disk_cache_no_marker [OF a b c d] by (simp add: site_def)
qed

text \<open>
  A call that gets as far as the append: what it leaves and what it returns.
\<close>

lemma write_disk_cache_reaches_append:
  assumes wr: "writable E js" "writable E web"
    and feed: "fst (get_json_list E json_url '''' w) = Inr j"
    and page: "fst (get_web_page E page_url '''' w) = Inr d"
    and head: "bs_find (named ''head'') d = Some (h, t)"
  shows "cached_bs_page (snd (write_disk_cache E js web w))
           = Some (append_at h (language_marker E (cached_language w)) d)"
    and "cached_language (snd (write_disk_cache E js web w)) = cached_language w"
    and "fst (write_disk_cache E js web w) =
           (case write_error E js (json_dumps E j) of
              Some e \<Rightarrow> Inl e
            | None \<Rightarrow>
                (case write_error E web
                        (prettify E (append_at h (language_marker E (cached_language w)) d)) of
                   Some e \<Rightarrow> Inl e
                 | None \<Rightarrow> Inr ()))"
    and "fst (write_disk_cache E js web w) = Inr () \<Longrightarrow>
           cached_json (snd (write_disk_cache E js web w)) = Some j
           \<and> files (snd (write_disk_cache E js web w)) web =
               Some (if js = web
                     then shared_file E (json_dumps E j)
                            (prettify E (append_at h (language_marker E (cached_language w)) d))
                     else prettify E (append_at h (language_marker E (cached_language w)) d))"
proof -
  let ?w0 = "w\<lparr>files := (files w)(js \<mapsto> empty_text E, web \<mapsto> empty_text E)\<rparr>"
  obtain w1 where gj: "get_json_list E json_url '''' ?w0 = (Inr j, w1)" "cached_json w1 = Some j"
    using get_json_list_default [OF feed, of ?w0] by auto
  from get_json_list_frame [OF gj(1)]
  have f1: "cached_bs_page w1 = cached_bs_page w" "cached_language w1 = cached_language w"
    by simp_all
  obtain w2 where gp: "get_web_page E page_url '''' w1 = (Inr d, w2)" "cached_bs_page w2 = Some d"
    "cached_language w2 = cached_language w" "cached_json w2 = Some j"
    using get_web_page_default [OF page f1(1)] f1(2) gj(2) by auto
  have ha: "head_append d (language_marker E (cached_language w))
      = Some (append_at h (language_marker E (cached_language w)) d)"
    using head by (simp add: head_append_def)
  show "cached_bs_page (snd (write_disk_cache E js web w))
           = Some (append_at h (language_marker E (cached_language w)) d)"
    using wr gj(1) gp(1,3) ha
    by (simp add: write_disk_cache_def split: option.splits)
  show "cached_language (snd (write_disk_cache E js web w)) = cached_language w"
    using wr gj(1) gp(1,3) ha
    by (simp add: write_disk_cache_def split: option.splits)
  show "fst (write_disk_cache E js web w) =
           (case write_error E js (json_dumps E j) of
              Some e \<Rightarrow> Inl e
            | None \<Rightarrow>
                (case write_error E web
                        (prettify E (append_at h (language_marker E (cached_language w)) d)) of
                   Some e \<Rightarrow> Inl e
                 | None \<Rightarrow> Inr ()))"
    using wr gj(1) gp(1,3) ha
    by (simp add: write_disk_cache_def split: option.splits)
  show "cached_json (snd (write_disk_cache E js web w)) = Some j
           \<and> files (snd (write_disk_cache E js web w)) web =
               Some (if js = web
                     then shared_file E (json_dumps E j)
                            (prettify E (append_at h (language_marker E (cached_language w)) d))
                     else prettify E (append_at h (language_marker E (cached_language w)) d))"
    if "fst (write_disk_cache E js web w) = Inr ()"
    using that wr gj(1) gp(1,3,4) ha
    by (auto simp: write_disk_cache_def split: option.splits)
qed

text \<open>
  A call that returns got as far as the append.
\<close>

lemma write_disk_cache_returned:
  assumes "write_disk_cache E js web w = (Inr (), w1)"
  shows "writable E js \<and> writable E web
         \<and> (\<exists>j d h t. fst (get_json_list E json_url '''' w) = Inr j
              \<and> fst (get_web_page E page_url '''' w) = Inr d
              \<and> bs_find (named ''head'') d = Some (h, t))"
proof -
  let ?w0 = "w\<lparr>files := (files w)(js \<mapsto> empty_text E, web \<mapsto> empty_text E)\<rparr>"
  from assms have wr: "writable E js" "writable E web"
    by (auto simp: write_disk_cache_def split: if_splits)
  obtain rj w' where gj: "get_json_list E json_url '''' ?w0 = (rj, w')"
    by (cases "get_json_list E json_url '''' ?w0")
  from assms wr gj obtain j where j: "rj = Inr j"
    by (cases rj) (auto simp: write_disk_cache_def)
  obtain rp w'' where gp: "get_web_page E page_url '''' w' = (rp, w'')"
    by (cases "get_web_page E page_url '''' w'")
  from assms wr gj j gp obtain d where d: "rp = Inr d"
    by (cases rp) (auto simp: write_disk_cache_def)
  from get_json_list_frame [OF gj] have pg: "cached_bs_page w' = cached_bs_page w" by simp
  have fj: "fst (get_json_list E json_url '''' w) = Inr j"
    using gj j by (auto simp: get_json_list_def Let_def split: if_splits sum.splits)
  have fp: "fst (get_web_page E page_url '''' w) = Inr d"
    using gp d pg by (auto simp: get_web_page_def Let_def split: if_splits sum.splits)
  from assms wr gj j gp d have "head_append d (language_marker E (cached_language w'')) \<noteq> None"
    by (auto simp: write_disk_cache_def split: option.splits)
  then obtain h t where "bs_find (named ''head'') d = Some (h, t)"
    by (auto simp: head_append_def split: option.splits)
  with wr fj fp show ?thesis by blast
qed






text \<open>
  Claim C3. The claim says that saving and then loading into a fresh cache restores the
  language that was active when saving. The code does not always. Saved under the tag
  \<open>a=b\<close>, the marker is \<open>LANGUAGE=a=b\<close>, and \<open>split('=')[1]\<close> restores \<open>a\<close>.
  And a document that was saved under \<open>fr\<close> keeps that marker in the cache; when the
  language then becomes \<open>de\<close> and the cache is saved again, the new marker is appended
  after the old one, and loading reads the first: it restores \<open>fr\<close>.
\<close>

theorem round_trip_loses_language:
  "fst (write_disk_cache site ''cached_list.json'' ''cached_webpage.html''
          (english\<lparr>cached_language := ''a=b''\<rparr>)) = Inr ()
   \<and> fst (read_disk_cache site ''cached_list.json'' ''cached_webpage.html''
          (fresh\<lparr>files := files (snd (write_disk_cache site ''cached_list.json''
                                          ''cached_webpage.html''
                                          (english\<lparr>cached_language := ''a=b''\<rparr>)))\<rparr>)) = Inr []
   \<and> cached_language (snd (read_disk_cache site ''cached_list.json'' ''cached_webpage.html''
          (fresh\<lparr>files := files (snd (write_disk_cache site ''cached_list.json''
                                          ''cached_webpage.html''
                                          (english\<lparr>cached_language := ''a=b''\<rparr>)))\<rparr>))) = ''a''
   \<and> fst (write_disk_cache site ''cached_list.json'' ''cached_webpage.html''
          (snd (set_language site ''de''
                 (snd (write_disk_cache site ''cached_list.json'' ''cached_webpage.html'' french)))))
       = Inr ()
   \<and> cached_language
        (snd (set_language site ''de''
                (snd (write_disk_cache site ''cached_list.json'' ''cached_webpage.html'' french))))
       = ''de''
   \<and> cached_language (snd (read_disk_cache site ''cached_list.json'' ''cached_webpage.html''
          (fresh\<lparr>files := files (snd (write_disk_cache site ''cached_list.json''
             ''cached_webpage.html''
             (snd (set_language site ''de''
                (snd (write_disk_cache site ''cached_list.json'' ''cached_webpage.html''
                   french))))))\<rparr>))) = ''fr''"
  by (simp add: write_disk_cache_def read_disk_cache_def set_language_def get_web_page_def
      get_json_list_def head_append_def language_marker_def bs_find_def find_all_def site_def fresh_def english_def
      french_def heroes_page_def column_def hero_link_def Let_def)

text \<open>
  Where the round trip does work: the marker markup parses to the one comment
  \<open>LANGUAGE=\<close> followed by the language, the page had no marker before the save, the
  language tag contains no \<open>=\<close>, the two paths differ, parsing the printed feed gives the
  feed back, and the first marker comment of the marked page is still the first after
  printing and parsing. Then loading the two files into any cache succeeds, restores the
  language that was active at the save and the saved feed, and its document is the parsed
  print of the document the saving process has in its cache.
\<close>

theorem round_trip_restores_snapshot:
  assumes saved: "write_disk_cache E jspath webpath w = (Inr (), w1)"
    and paths: "jspath \<noteq> webpath"
    and marker: "language_marker E (cached_language w) = [Comment (''LANGUAGE='' @ cached_language w)]"
    and tag: "CHR ''='' \<notin> set (cached_language w)"
    and unmarked: "\<forall>d. fst (get_web_page E page_url '''' w) = Inr d \<longrightarrow> count_markers d = 0"
    and json: "\<forall>j. fst (get_json_list E json_url '''' w) = Inr j \<longrightarrow> json_loads E (json_dumps E j) = Some j"
    and html: "\<forall>d1. cached_bs_page w1 = Some d1 \<longrightarrow>
                 first_comment (\<lambda>t. take 9 t = ''LANGUAGE='') (BeautifulSoup E (prettify E d1))
                 = first_comment (\<lambda>t. take 9 t = ''LANGUAGE='') d1"
    and same_files: "files w0 = files w1"
  shows "fst (read_disk_cache E jspath webpath w0) = Inr []
         \<and> cached_language (snd (read_disk_cache E jspath webpath w0)) = cached_language w
         \<and> cached_json (snd (read_disk_cache E jspath webpath w0)) = cached_json w1
         \<and> (\<exists>d1. cached_bs_page w1 = Some d1
               \<and> cached_bs_page (snd (read_disk_cache E jspath webpath w0))
                   = Some (BeautifulSoup E (prettify E d1)))"
proof -
  let ?c = "[Comment (''LANGUAGE='' @ cached_language w)]"
  from write_disk_cache_returned [OF saved] obtain j d h t where
    wr: "writable E jspath" "writable E webpath"
    and j: "fst (get_json_list E json_url '''' w) = Inr j"
    and d: "fst (get_web_page E page_url '''' w) = Inr d"
    and h: "bs_find (named ''head'') d = Some (h, t)"
    by blast
  from saved have r: "fst (write_disk_cache E jspath webpath w) = Inr ()"
    and s: "snd (write_disk_cache E jspath webpath w) = w1" by simp_all
  from write_disk_cache_reaches_append(1) [OF wr j d h] s marker
  have c: "cached_bs_page w1 = Some (append_at h ?c d)" by simp
  from write_disk_cache_reaches_append(4) [OF wr j d h r] s marker paths
  have cj: "cached_json w1 = Some j"
    and f: "files w1 webpath = Some (prettify E (append_at h ?c d))"
    by simp_all
  let ?w' = "w\<lparr>files := (files w)(jspath \<mapsto> empty_text E, webpath \<mapsto> empty_text E)\<rparr>"
  obtain wa where gj: "get_json_list E json_url '''' ?w' = (Inr j, wa)"
    using get_json_list_default [OF j, of ?w'] by auto
  from get_json_list_frame [OF gj] have "cached_bs_page wa = cached_bs_page w" by simp
  from get_web_page_default [OF d this] obtain wb where
    gp: "get_web_page E page_url '''' wa = (Inr d, wb)" by auto
  have fj: "files w1 jspath = Some (json_dumps E j)"
    using saved wr gj gp paths
    by (auto simp: write_disk_cache_def split: if_splits option.splits)
  from bs_find_named [OF h] obtain a cl cs where "node_at d h = Some (Tag ''head'' a cl cs)"
    by blast
  moreover from unmarked d have "count_markers d = 0" by simp
  ultimately have "first_comment is_marker (append_at h ?c d) = Some (''LANGUAGE='' @ cached_language w)"
    by (intro first_comment_append_at) (simp_all add: is_marker_def)
  then have fc: "first_comment (\<lambda>t. take 9 t = ''LANGUAGE='') (append_at h ?c d)
      = Some (''LANGUAGE='' @ cached_language w)"
    by (simp add: is_marker_def [abs_def])
  from html c have fc': "first_comment (\<lambda>t. take 9 t = ''LANGUAGE='')
       (BeautifulSoup E (prettify E (append_at h ?c d))) = Some (''LANGUAGE='' @ cached_language w)"
    using fc by simp
  from json j have jl: "json_loads E (json_dumps E j) = Some j" by simp
  show ?thesis
    using same_files fj f jl c cj fc' split_language_marker [OF tag]
    by (simp add: read_disk_cache_def Let_def)
qed

theorem round_trip_restores_snapshot_witness:
  "fst (read_disk_cache site ''cached_list.json'' ''cached_webpage.html''
          (fresh\<lparr>files := files (snd (write_disk_cache site ''cached_list.json''
                                          ''cached_webpage.html'' french))\<rparr>)) = Inr []
   \<and> cached_language (snd (read_disk_cache site ''cached_list.json'' ''cached_webpage.html''
          (fresh\<lparr>files := files (snd (write_disk_cache site ''cached_list.json''
                                          ''cached_webpage.html'' french))\<rparr>))) = ''fr''
   \<and> cached_json (snd (read_disk_cache site ''cached_list.json'' ''cached_webpage.html''
          (fresh\<lparr>files := files (snd (write_disk_cache site ''cached_list.json''
                                          ''cached_webpage.html'' french))\<rparr>))) = Some feed_fr"
proof -
  let ?w1 = "snd (write_disk_cache site ''cached_list.json'' ''cached_webpage.html'' french)"
  have ev: "fst (write_disk_cache site ''cached_list.json'' ''cached_webpage.html'' french) = Inr ()"
    "cached_json ?w1 = Some feed_fr"
    by (simp_all add: write_disk_cache_def get_web_page_def get_json_list_def head_append_def
        language_marker_def bs_find_def find_all_def site_def french_def heroes_page_def
        column_def hero_link_def)
  obtain r w1 where e: "write_disk_cache site ''cached_list.json'' ''cached_webpage.html'' french = (r, w1)"
    by (cases "write_disk_cache site ''cached_list.json'' ''cached_webpage.html'' french")
  with ev have w1: "r = Inr ()" "?w1 = w1" "cached_json w1 = Some feed_fr" by simp_all
  from e w1 have saved: "write_disk_cache site ''cached_list.json'' ''cached_webpage.html'' french
      = (Inr (), w1)" by simp
  have paths: "''cached_list.json'' \<noteq> ''cached_webpage.html''" by simp
  have marker: "language_marker site (cached_language french)
      = [Comment (''LANGUAGE='' @ cached_language french)]"
    by (simp add: language_marker_def site_def french_def)
  have tag: "CHR ''='' \<notin> set (cached_language french)"
    by (simp add: french_def)
  have unmarked: "\<forall>d. fst (get_web_page site page_url '''' french) = Inr d \<longrightarrow> count_markers d = 0"
    by (simp add: get_web_page_def french_def heroes_page_def column_def hero_link_def)
  have json: "\<forall>j. fst (get_json_list site json_url '''' french) = Inr j
      \<longrightarrow> json_loads site (json_dumps site j) = Some j"
    by (simp add: site_def)
  have html: "\<forall>d1. cached_bs_page w1 = Some d1 \<longrightarrow>
                 first_comment (\<lambda>t. take 9 t = ''LANGUAGE='') (BeautifulSoup site (prettify site d1))
                 = first_comment (\<lambda>t. take 9 t = ''LANGUAGE='') d1"
    by (simp add: site_def)
  have same_files: "files (fresh\<lparr>files := files w1\<rparr>) = files w1" by simp
  show ?thesis
    using round_trip_restores_snapshot [OF saved paths marker tag unmarked json html same_files]
      w1
    by (simp add: french_def)
qed

end
